theory Spec2Isabelle
  imports Complex_Main "HOL-Library.Sublist" "HOL-Library.Log_Nat"
begin

section \<open>Python strings\<close>

text \<open>
  A Python \<open>str\<close> is modelled as a \<open>string\<close>, a list of 8-bit characters, each read as
  the code point of that number (the Latin-1 range U+0000 to U+00FF). On this range
  \<open>lower\<close> and \<open>isspace\<close> are what \<open>str.lower\<close> and \<open>str.isspace\<close> are: the capital
  letters A-Z and U+00C0 to U+00DE, without the sign U+00D7, are moved up by 32, and the
  blanks are U+0009 to U+000D, U+001C to U+0020, U+0085 and U+00A0. A slice \<open>s[:n]\<close> is
  \<open>take n s\<close>. Text with a code point above U+00FF is outside the model.
\<close>

text \<open>\<open>sub in s\<close>: the substring test of Python.\<close>

fun contains :: "string \<Rightarrow> string \<Rightarrow> bool" where
  "contains sub [] = (sub = [])"
| "contains sub (c # cs) = (prefix sub (c # cs) \<or> contains sub cs)"

text \<open>\<open>any(p in s for p in ps)\<close>.\<close>

definition any_in :: "string list \<Rightarrow> string \<Rightarrow> bool" where
  "any_in ps s = list_ex (\<lambda>p. contains p s) ps"

definition lower_char :: "char \<Rightarrow> char" where
  "lower_char c =
     (let n = (of_char c :: nat) in
      if (65 \<le> n \<and> n \<le> 90) \<or> (192 \<le> n \<and> n \<le> 214) \<or> (216 \<le> n \<and> n \<le> 222)
      then char_of (n + 32) else c)"

definition lower :: "string \<Rightarrow> string" where
  "lower s = map lower_char s"

definition isspace :: "char \<Rightarrow> bool" where
  "isspace c =
     (let n = (of_char c :: nat) in
      (9 \<le> n \<and> n \<le> 13) \<or> (28 \<le> n \<and> n \<le> 32) \<or> n = 133 \<or> n = 160)"

text \<open>\<open>s.strip()\<close>.\<close>

definition strip :: "string \<Rightarrow> string" where
  "strip s = rev (dropWhile isspace (rev (dropWhile isspace s)))"



text \<open>
  The regular expression \<open><[^>]+>\<close> at the head of a string: a \<open><\<close>, then a non-empty
  run of characters other than \<open>>\<close>, then a \<open>>\<close>. The run is greedy, and a shorter run
  is never followed by \<open>>\<close>, so there is a match exactly when the longest run is
  non-empty and is followed by \<open>>\<close>. The result is the length of the match.
\<close>

definition match_tag :: "string \<Rightarrow> nat option" where
  "match_tag s =
     (case s of
        [] \<Rightarrow> None
      | c # cs \<Rightarrow>
          if c = CHR ''<'' \<and> takeWhile (\<lambda>x. x \<noteq> CHR ''>'') cs \<noteq> []
               \<and> dropWhile (\<lambda>x. x \<noteq> CHR ''>'') cs \<noteq> []
          then Some (length (takeWhile (\<lambda>x. x \<noteq> CHR ''>'') cs) + 2)
          else None)"

text \<open>
  \<open>re.sub(r'<[^>]+>', ' ', s)\<close>: matches are found from the left and do not overlap; the
  counter is the number of characters of the current match still to be skipped.
\<close>

fun sub_tags_from :: "nat \<Rightarrow> string \<Rightarrow> string" where
  "sub_tags_from k [] = []"
| "sub_tags_from (Suc k) (c # cs) = sub_tags_from k cs"
| "sub_tags_from 0 (c # cs) =
     (case match_tag (c # cs) of
        Some n \<Rightarrow> CHR '' '' # sub_tags_from (n - 1) cs
      | None \<Rightarrow> c # sub_tags_from 0 cs)"

definition sub_tags :: "string \<Rightarrow> string" where
  "sub_tags s = sub_tags_from 0 s"

section \<open>The Job record and the normalizer (main.py)\<close>

record job =
  title :: string
  company :: string
  location :: string
  description :: string
  applyLink :: string
  email :: "string option"
  job_id :: string

text \<open>
  \<open>cleanHtml(text)\<close>. A raw field is \<open>None\<close> or a string; \<open>not text\<close> holds for \<open>None\<close> and
  for the empty string.
\<close>

definition falsy :: "string option \<Rightarrow> bool" where
  "falsy t = (case t of None \<Rightarrow> True | Some s \<Rightarrow> s = [])"

definition cleanHtml :: "string option \<Rightarrow> string" where
  "cleanHtml t = (case t of None \<Rightarrow> [] | Some s \<Rightarrow> if s = [] then [] else strip (sub_tags s))"

definition normalizeJob ::
  "string option \<Rightarrow> string option \<Rightarrow> string option \<Rightarrow> string option \<Rightarrow> string
     \<Rightarrow> string option \<Rightarrow> job option" where
  "normalizeJob t c l d a e =
     (if falsy t \<or> falsy c then None
      else
        let title' = strip (cleanHtml t);
            company' = strip (cleanHtml c);
            location' = (if \<not> falsy l then strip (cleanHtml l) else ''pakistan'');
            description' = strip (cleanHtml d)
        in Some \<lparr> title = lower title',
                  company = company',
                  location = lower location',
                  description = lower description',
                  applyLink = a,
                  email = e,
                  job_id = take 30 (lower company') @ ''-'' @ take 40 (lower title') \<rparr>)"

section \<open>The filter chain (main.py)\<close>

text \<open>\<open>f"{title} {desc}"\<close>.\<close>

definition combined :: "job \<Rightarrow> string" where
  "combined j = title j @ '' '' @ description j"




definition rejectPatterns :: "string list" where
  "rejectPatterns =
     [''senior'', ''sr.'', ''sr '', ''lead'', ''principal'', ''staff engineer'', ''director'',
      ''5+ year'', ''6+ year'', ''7+ year'', ''8+ year'', ''10+ year'',
      ''5 year'', ''6 year'', ''7 year'', ''8 year'',
      ''mid-level'', ''mid level'', ''intermediate'', ''experienced'',
      ''3+ year'', ''4+ year'', ''3 year'', ''4 year'']"

definition freshPatterns :: "string list" where
  "freshPatterns =
     [''fresh'', ''junior'', ''entry'', ''graduate'', ''intern'', ''trainee'',
      ''0-1'', ''0-2'', ''1-2'', ''associate'', ''entry level'', ''entry-level'']"

definition entryLevelTitles :: "string list" where
  "entryLevelTitles = [''developer'', ''engineer'', ''programmer'']"

definition experienceFilter :: "job \<Rightarrow> bool" where
  "experienceFilter j =
     (if any_in rejectPatterns (combined j) then False
      else if any_in freshPatterns (combined j) then True
      else if any_in entryLevelTitles (title j) \<and> \<not> contains ''senior'' (title j)
                \<and> \<not> contains ''lead'' (title j) then True
      else False)"



section \<open>The scorer (main.py)\<close>

text \<open>
  The scorer computes with Python floats, which are IEEE doubles. It is modelled at two
  levels. \<open>computeKeywordScore\<close> and \<open>scoreJobHybrid\<close> compute with exact real numbers.
  \<open>computeKeywordScore_fl\<close> and \<open>scoreJobHybrid_fl\<close>, further down, are the same
  functions with a rounding \<open>fl\<close> after every arithmetic operation and on every decimal
  literal; with the identity for \<open>fl\<close> they are the exact functions, and with
  \<open>round_double\<close> they compute what Python computes. \<open>int(x)\<close> on a float truncates
  towards zero.
\<close>

definition py_int :: "real \<Rightarrow> int" where
  "py_int x = (if x \<ge> 0 then \<lfloor>x\<rfloor> else \<lceil>x\<rceil>)"

definition synonyms :: "(string \<times> string list) list" where
  "synonyms =
     [(''next.js'', [''nextjs'', ''next js'', ''react framework'']),
      (''nest.js'', [''nestjs'', ''nest js'']),
      (''react'', [''reactjs'', ''react.js'']),
      (''node'', [''nodejs'', ''node.js'']),
      (''mongodb'', [''mongo'', ''nosql'', ''database'']),
      (''typescript'', [''ts'', ''javascript'']),
      (''python'', [''py'']),
      (''fastapi'', [''fast api'', ''python backend'']),
      (''ai'', [''artificial intelligence'', ''machine learning'', ''ml'']),
      (''full stack'', [''fullstack'', ''full-stack'', ''frontend'', ''backend''])]"

text \<open>
  The inner loop over the synonym table: the first family whose key is related to the
  skill and one of whose synonyms occurs in the text gives 0.8 and ends the loop.
\<close>

fun synonym_credit :: "(string \<times> string list) list \<Rightarrow> string \<Rightarrow> string \<Rightarrow> real" where
  "synonym_credit [] skill_lower text = 0"
| "synonym_credit ((key, syns) # rest) skill_lower text =
     (if (contains key skill_lower \<or> contains skill_lower key) \<and> any_in syns text
      then 0.8
      else synonym_credit rest skill_lower text)"

text \<open>The loop over \<open>cvSkills\<close>, with the running value of \<open>matches\<close>.\<close>

fun count_matches :: "string \<Rightarrow> string list \<Rightarrow> real \<Rightarrow> real" where
  "count_matches text [] matches = matches"
| "count_matches text (skill # rest) matches =
     (let skill_lower = lower skill in
      if contains skill_lower text then count_matches text rest (matches + 1)
      else count_matches text rest (matches + synonym_credit synonyms skill_lower text))"

definition computeKeywordScore :: "job \<Rightarrow> string list \<Rightarrow> real" where
  "computeKeywordScore j cvSkills =
     (let text = lower (title j @ '' '' @ description j);
          matches = count_matches text cvSkills 0;
          total = length cvSkills
      in if total > 0 then matches / real total else 0)"

definition freshKeywords :: "string list" where
  "freshKeywords =
     [''fresh'', ''junior'', ''entry'', ''graduate'', ''intern'', ''trainee'', ''associate'']"

definition highPriorityRoles :: "string list" where
  "highPriorityRoles =
     [''mern'', ''mean'', ''full stack'', ''fullstack'', ''full-stack'',
      ''web developer'', ''react'', ''next.js'', ''nextjs'', ''node.js'', ''nodejs'',
      ''javascript developer'', ''typescript developer'', ''frontend'', ''backend'']"

definition mediumPriorityRoles :: "string list" where
  "mediumPriorityRoles = [''software engineer'', ''software developer'', ''programmer'']"

definition lowPriorityRoles :: "string list" where
  "lowPriorityRoles = [''ai engineer'', ''ml engineer'', ''data science'', ''machine learning'']"

definition freshGradBoost :: "job \<Rightarrow> real" where
  "freshGradBoost j =
     (if list_ex (\<lambda>kw. contains kw (lower (title j)) \<or> contains kw (lower (description j)))
           freshKeywords
      then 0.15 else 0)"

definition roleBoost :: "job \<Rightarrow> real" where
  "roleBoost j =
     (let combined' = lower (title j) @ '' '' @ lower (description j) in
      if any_in highPriorityRoles combined' then 0.20
      else if any_in mediumPriorityRoles combined' then 0.10
      else if any_in lowPriorityRoles combined' then 0.05
      else 0)"

text \<open>
  \<open>scoreJobHybrid\<close>. The embedding model is an external collaborator: \<open>cosine\<close> is the value
  of the cosine expression between the profile embedding and the embedding of the job.
  A cosine that is not a number is clamped to 0 by \<open>max\<close>, as a negative one is.
\<close>

definition scoreJobHybrid :: "real \<Rightarrow> string list \<Rightarrow> job \<Rightarrow> int" where
  "scoreJobHybrid cosine cvSkills j =
     (let cosineScore = max 0 cosine;
          keywordScore = computeKeywordScore j cvSkills;
          baseScore = cosineScore * 0.70 + keywordScore * 0.30;
          totalScore = py_int ((baseScore + freshGradBoost j + roleBoost j) * 100)
      in min 100 totalScore)"

text \<open>
  Double precision. A finite double is \<open>m * 2 ^ (e - 52)\<close> for integers \<open>m\<close> and \<open>e\<close> with
  \<open>\<bar>m\<bar> < 2 ^ 53\<close> and \<open>e \<ge> - 1022\<close>. \<open>float_exponent a\<close> is the \<open>e\<close> with
  \<open>2 ^ e \<le> a < 2 ^ (e + 1)\<close>, for a positive \<open>a\<close>, and \<open>round_double x\<close> is the double
  nearest to \<open>x\<close>, a tie going to the even \<open>m\<close>, which is the result of an IEEE operation
  whose exact result is \<open>x\<close>. Overflow to infinity is not modelled: the values of the
  scorer stay far below the largest double, a cosine being about 1 at most.
\<close>

definition float_exponent :: "real \<Rightarrow> int" where
  "float_exponent a = (if 1 \<le> a then bitlen \<lfloor>a\<rfloor> - 1 else - bitlen (\<lceil>1 / a\<rceil> - 1))"

definition pow2 :: "int \<Rightarrow> real" where
  "pow2 e = (if 0 \<le> e then 2 ^ nat e else 1 / 2 ^ nat (- e))"

definition round_half_even :: "real \<Rightarrow> int" where
  "round_half_even q =
     (let n = \<lfloor>q\<rfloor>; r = q - of_int n in
      if r < 1 / 2 then n else if 1 / 2 < r then n + 1 else if even n then n else n + 1)"

definition round_double :: "real \<Rightarrow> real" where
  "round_double x =
     (if x = 0 then 0
      else
        let a = \<bar>x\<bar>;
            e = max (float_exponent a) (- 1022);
            u = pow2 (e - 52)
        in sgn x * of_int (round_half_even (a / u)) * u)"

text \<open>
  The scorer with the rounding \<open>fl\<close>. In \<open>computeKeywordScore\<close> a skill without a match
  leaves \<open>matches\<close> as it is; \<open>matches += 1\<close> is exact in the source as long as \<open>matches\<close>
  is an \<open>int\<close>, and so is the rounded sum for every count below \<open>2 ^ 53\<close>.
\<close>

fun count_matches_fl :: "(real \<Rightarrow> real) \<Rightarrow> string \<Rightarrow> string list \<Rightarrow> real \<Rightarrow> real" where
  "count_matches_fl fl jobText [] matches = matches"
| "count_matches_fl fl jobText (skill # rest) matches =
     (let skill_lower = lower skill in
      if contains skill_lower jobText then count_matches_fl fl jobText rest (fl (matches + 1))
      else if synonym_credit synonyms skill_lower jobText = 0
      then count_matches_fl fl jobText rest matches
      else count_matches_fl fl jobText rest
             (fl (matches + fl (synonym_credit synonyms skill_lower jobText))))"

definition computeKeywordScore_fl :: "(real \<Rightarrow> real) \<Rightarrow> job \<Rightarrow> string list \<Rightarrow> real" where
  "computeKeywordScore_fl fl j cvSkills =
     (let jobText = lower (title j @ '' '' @ description j);
          matches = count_matches_fl fl jobText cvSkills 0;
          total = length cvSkills
      in if total > 0 then fl (matches / real total) else 0)"

definition scoreJobHybrid_fl :: "(real \<Rightarrow> real) \<Rightarrow> real \<Rightarrow> string list \<Rightarrow> job \<Rightarrow> int" where
  "scoreJobHybrid_fl fl cosine cvSkills j =
     (let cosineScore = max 0 cosine;
          keywordScore = computeKeywordScore_fl fl j cvSkills;
          baseScore = fl (fl (cosineScore * fl 0.70) + fl (keywordScore * fl 0.30));
          totalScore = py_int (fl (fl (fl (baseScore + fl (freshGradBoost j)) + fl (roleBoost j)) * 100))
      in min 100 totalScore)"

definition computeKeywordScore_double :: "job \<Rightarrow> string list \<Rightarrow> real" where
  "computeKeywordScore_double = computeKeywordScore_fl round_double"

definition scoreJobHybrid_double :: "real \<Rightarrow> string list \<Rightarrow> job \<Rightarrow> int" where
  "scoreJobHybrid_double = scoreJobHybrid_fl round_double"

section \<open>The history store (job\_history.py)\<close>

text \<open>
  The store is a Python dict from fingerprint to timestamp: an association list with
  distinct keys in insertion order. A timestamp is the instant in microseconds from
  1970-01-01T00:00:00, in the local time that \<open>datetime.now()\<close> reads; the
  source keeps its \<open>isoformat()\<close> text and compares the texts, which for the zero-padded
  fixed-width format orders them as the instants are ordered.
\<close>

type_synonym timestamp = int
type_synonym history_dict = "(string \<times> timestamp) list"

text \<open>\<open>d[k] = v\<close>.\<close>

fun dict_set :: "string \<Rightarrow> timestamp \<Rightarrow> history_dict \<Rightarrow> history_dict" where
  "dict_set k v [] = [(k, v)]"
| "dict_set k v ((k', v') # rest) =
     (if k' = k then (k, v) # rest else (k', v') # dict_set k v rest)"

text \<open>\<open>timedelta(days=d)\<close> in microseconds.\<close>

definition timedelta_days :: "int \<Rightarrow> int" where
  "timedelta_days d = d * 86400000000"

text \<open>
  What the outside world sees, in order: the writes of the history file, the calls of
  the scorer, the posts to the webhook and the sleeps.
\<close>

record payload =
  embed_job :: job
  embed_score :: int
  embed_desc :: string
  embed_color :: nat

datatype event =
    SaveHistory history_dict
  | ScoreCall job
  | HttpPost payload
  | Sleep nat

text \<open>
  A write of the history file either succeeds or raises; the exception is caught and
  logged, and the file is then left in a state that the environment decides.
\<close>

datatype write_outcome = Written | WriteFailed "history_dict option"

record world =
  history :: history_dict
  retention_days :: int
  disk :: "history_dict option"
  trace :: "event list"

definition load_history :: "history_dict option \<Rightarrow> history_dict" where
  "load_history d = (case d of None \<Rightarrow> [] | Some h \<Rightarrow> h)"

definition save_history :: "write_outcome \<Rightarrow> world \<Rightarrow> world" where
  "save_history wo w =
     w\<lparr> disk := (case wo of Written \<Rightarrow> Some (history w) | WriteFailed d \<Rightarrow> d),
        trace := trace w @ [SaveHistory (history w)] \<rparr>"

text \<open>\<open>datetime.now() - timedelta(days=retention_days)\<close>, when it is a date.\<close>

definition cutoff_timestamp :: "timestamp \<Rightarrow> int \<Rightarrow> timestamp" where
  "cutoff_timestamp now days = now - timedelta_days days"

definition cleanup_old_entries :: "timestamp \<Rightarrow> write_outcome \<Rightarrow> world \<Rightarrow> nat \<times> world" where
  "cleanup_old_entries now wo w =
     (let cutoff = cutoff_timestamp now (retention_days w);
          initial_count = length (history w);
          w' = w\<lparr> history := filter (\<lambda>(job_id, timestamp). timestamp > cutoff) (history w) \<rparr>;
          removed_count = initial_count - length (history w')
      in (removed_count, if removed_count > 0 then save_history wo w' else w'))"

text \<open>
  \<open>cleanup_old_entries\<close> together with the error that its first line can raise. A naive
  \<open>datetime\<close> lies between the first instant of the year 1 and the last of the year 9999,
  here in microseconds from 1970-01-01T00:00:00, and the subtraction raises
  \<open>OverflowError\<close> when the cutoff is not in this range (so does \<open>timedelta\<close> for more than
  999999999 days, for which the cutoff is out of the range too). This needs a retention
  of about 739000 days or more; \<open>cleanup_old_entries\<close> above is what the call does when
  the cutoff is a date.
\<close>

datatype py_error = OverflowError

definition datetime_min :: timestamp where
  "datetime_min = - 62135596800000000"

definition datetime_max :: timestamp where
  "datetime_max = 253402300799999999"

definition in_datetime_range :: "timestamp \<Rightarrow> bool" where
  "in_datetime_range t = (datetime_min \<le> t \<and> t \<le> datetime_max)"

definition cleanup_old_entries_checked ::
  "timestamp \<Rightarrow> write_outcome \<Rightarrow> world \<Rightarrow> py_error + (nat \<times> world)" where
  "cleanup_old_entries_checked now wo w =
     (if in_datetime_range (cutoff_timestamp now (retention_days w))
      then Inr (cleanup_old_entries now wo w)
      else Inl OverflowError)"

definition is_sent :: "world \<Rightarrow> string \<Rightarrow> bool" where
  "is_sent w k = (k \<in> fst ` set (history w))"

definition mark_as_sent :: "timestamp \<Rightarrow> write_outcome \<Rightarrow> string \<Rightarrow> world \<Rightarrow> world" where
  "mark_as_sent now wo k w = save_history wo (w\<lparr> history := dict_set k now (history w) \<rparr>)"

section \<open>Dispatch and the orchestrator (main.py)\<close>

definition embed_description :: "job \<Rightarrow> string" where
  "embed_description j =
     (let desc = (if length (description j) > 400 then take 400 (description j) @ ''...''
                  else description j)
      in if desc = [] then ''No description available'' else desc)"

definition embed_colour :: "int \<Rightarrow> nat" where
  "embed_colour score = (if score \<ge> 70 then 5763719 else if score \<ge> 50 then 16776960 else 15105570)"

text \<open>
  \<open>sendToDiscord\<close>. \<open>now\<close> is the reading of the clock in \<open>mark_as_sent\<close>, \<open>wo\<close> the outcome
  of its write, and \<open>post_ok\<close> is false when \<open>requests.post\<close> raises.
\<close>

definition sendToDiscord :: "timestamp \<Rightarrow> write_outcome \<Rightarrow> bool \<Rightarrow> job \<Rightarrow> int \<Rightarrow> world \<Rightarrow> world" where
  "sendToDiscord now wo post_ok j score w =
     (if is_sent w (job_id j) then w
      else
        let w1 = mark_as_sent now wo (job_id j) w;
            p = \<lparr> embed_job = j, embed_score = score, embed_desc = embed_description j,
                  embed_color = embed_colour score \<rparr>;
            w2 = w1\<lparr> trace := trace w1 @ [HttpPost p] \<rparr>
        in if post_ok then w2\<lparr> trace := trace w2 @ [Sleep 1] \<rparr> else w2)"

record config =
  allowedRoles :: "string list"
  allowedLocations :: "string list"
  minScore :: int
  cvSkills :: "string list"




section \<open>The claims in the words of the specification\<close>

text \<open>
  The credit of one skill token as the specification describes it: 1 for a verbatim
  occurrence, else 0.8 when some synonym family is related to the skill and one of its
  synonyms occurs in the job text, else nothing.
\<close>

definition skill_credit :: "string \<Rightarrow> string \<Rightarrow> real" where
  "skill_credit jobText skill =
     (if contains (lower skill) jobText then 1
      else if (\<exists>(key, syns) \<in> set synonyms.
                 (contains key (lower skill) \<or> contains (lower skill) key) \<and> any_in syns jobText)
      then 0.8 else 0)"



definition trimmed :: "string \<Rightarrow> bool" where
  "trimmed s = (s = [] \<or> (\<not> isspace (hd s) \<and> \<not> isspace (last s)))"


section \<open>Concrete inputs\<close>

definition job_senior_fresh :: job where
  "job_senior_fresh =
     \<lparr> title = ''senior developer'', company = ''Acme'', location = ''lahore'',
       description = ''fresh graduates welcome'', applyLink = ''http://acme.example/jobs/7'',
       email = None, job_id = ''acme-senior developer'' \<rparr>"

definition job_clerk :: job where
  "job_clerk =
     \<lparr> title = ''office clerk'', company = ''Acme'', location = ''lahore'',
       description = ''filing'', applyLink = ''http://acme.example/jobs/1'',
       email = None, job_id = ''acme-office clerk'' \<rparr>"

definition job_junior_web :: job where
  "job_junior_web =
     \<lparr> title = ''junior web developer'', company = ''Acme'', location = ''lahore'',
       description = ''maintain the company site'', applyLink = ''http://acme.example/jobs/2'',
       email = None, job_id = ''acme-junior web developer'' \<rparr>"

definition job_python_nosql :: job where
  "job_python_nosql =
     \<lparr> title = ''junior python developer'', company = ''Acme'', location = ''lahore'',
       description = ''services on nosql stores'', applyLink = ''http://acme.example/jobs/3'',
       email = None, job_id = ''acme-junior python developer'' \<rparr>"

definition job_posting_a :: job where
  "job_posting_a =
     \<lparr> title = ''junior dev'', company = ''Acme'', location = ''pakistan'',
       description = ''first advert'', applyLink = ''http://acme.example/a'',
       email = None, job_id = ''acme-junior dev'' \<rparr>"

definition job_posting_b :: job where
  "job_posting_b =
     \<lparr> title = ''junior dev'', company = ''ACME'', location = ''lahore'',
       description = ''second advert'', applyLink = ''http://acme.example/b'',
       email = None, job_id = ''acme-junior dev'' \<rparr>"


text \<open>
  A store read at the instant 1700000000000000 with a retention of 7 days: the cutoff
  is 1699395200000000. The first entry is ten days old, the second one day old.
\<close>

definition world_two_entries :: world where
  "world_two_entries =
     \<lparr> history = [(''acme-old job'', 1699136000000000), (''acme-new job'', 1699913600000000)],
       retention_days = 7, disk = None, trace = [] \<rparr>"

definition world_new_entry :: world where
  "world_new_entry =
     \<lparr> history = [(''acme-new job'', 1699913600000000)],
       retention_days = 7, disk = Some [(''acme-new job'', 1699913600000000)],
       trace = [SaveHistory [(''acme-new job'', 1699913600000000)]] \<rparr>"

text \<open>A store whose only entry is exactly seven days old at that instant.\<close>

definition world_boundary_entry :: world where
  "world_boundary_entry =
     \<lparr> history = [(''acme-week old job'', 1699395200000000)],
       retention_days = 7, disk = None, trace = [] \<rparr>"

text \<open>A store whose only entry is one microsecond newer than that.\<close>

definition world_just_inside :: world where
  "world_just_inside =
     \<lparr> history = [(''acme-week old job'', 1699395200000001)],
       retention_days = 7, disk = None, trace = [] \<rparr>"

text \<open>An empty store with a retention of 739000 days.\<close>

definition world_long_retention :: world where
  "world_long_retention =
     \<lparr> history = [], retention_days = 739000, disk = None, trace = [] \<rparr>"



definition world_sent_web :: world where
  "world_sent_web =
     \<lparr> history = [(''acme-junior web developer'', 1699913600000000)],
       retention_days = 7, disk = Some [(''acme-junior web developer'', 1699913600000000)],
       trace = [] \<rparr>"

text \<open>
  The scenario of the specification: a junior Python position, an empty store, and the
  world after the run that dispatches the job.
\<close>

definition job_entry_python :: job where
  "job_entry_python =
     \<lparr> title = ''junior python developer'', company = ''Acme'', location = ''lahore'',
       description = ''entry level role using python and react'',
       applyLink = ''http://acme.example/jobs/5'', email = None,
       job_id = ''acme-junior python developer'' \<rparr>"



section \<open>Strings\<close>

lemma any_in_iff: "any_in ps s \<longleftrightarrow> (\<exists>p \<in> set ps. contains p s)"
  by (simp add: any_in_def list_ex_iff)

lemma lower_char_idem: "lower_char (lower_char c) = lower_char c"
  by (auto simp: lower_char_def Let_def)

lemma lower_idem: "lower (lower s) = lower s"
  by (simp add: lower_def lower_char_idem)










lemma rev_dropWhile_rev: "rev (dropWhile P (rev u)) @ rev (takeWhile P (rev u)) = u"
proof -
  have "rev (dropWhile P (rev u)) @ rev (takeWhile P (rev u))
          = rev (takeWhile P (rev u) @ dropWhile P (rev u))"
    by (simp only: rev_append)
  also have "\<dots> = rev (rev u)"
    by (simp only: takeWhile_dropWhile_id)
  also have "\<dots> = u"
    by simp
  finally show ?thesis .
qed



lemma trimmed_strip: "trimmed (strip s)"
proof (cases "strip s = []")
  case True
  then show ?thesis by (simp add: trimmed_def)
next
  case False
  let ?u = "dropWhile isspace s"
  let ?v = "dropWhile isspace (rev ?u)"
  have v: "?v \<noteq> []" using False by (simp add: strip_def)
  then have 1: "\<not> isspace (hd ?v)" by (rule hd_dropWhile)
  have "last (strip s) = hd ?v"
    using v by (simp add: strip_def last_rev)
  with 1 have l: "\<not> isspace (last (strip s))" by simp
  have u: "?u \<noteq> []"
  proof
    assume "?u = []"
    then have "?v = []" by (simp only: rev.simps dropWhile.simps)
    with v show False by simp
  qed
  then have 2: "\<not> isspace (hd ?u)" by (rule hd_dropWhile)
  have "?u = strip s @ rev (takeWhile isspace (rev ?u))"
    unfolding strip_def by (rule rev_dropWhile_rev[symmetric])
  with False have "hd ?u = hd (strip s)" by (metis hd_append2)
  with 2 l False show ?thesis by (simp add: trimmed_def)
qed

lemma dropWhile_id: "s = [] \<or> \<not> P (hd s) \<Longrightarrow> dropWhile P s = s"
  by (cases s) auto

lemma strip_trimmed: "trimmed s \<Longrightarrow> strip s = s"
proof (cases "s = []")
  case True
  then show ?thesis by (simp add: strip_def)
next
  case False
  assume "trimmed s"
  with False have h: "\<not> isspace (hd s)" and l: "\<not> isspace (last s)"
    by (simp_all add: trimmed_def)
  have 1: "dropWhile isspace s = s"
    using h by (intro dropWhile_id) simp
  have "hd (rev s) = last s" using False by (simp add: hd_rev)
  with l have 2: "dropWhile isspace (rev s) = rev s"
    by (intro dropWhile_id) simp
  show ?thesis by (simp add: strip_def 1 2)
qed

lemma strip_idem: "strip (strip s) = strip s"
  by (rule strip_trimmed) (rule trimmed_strip)









lemma strip_Nil_iff: "strip s = [] \<longleftrightarrow> (\<forall>c \<in> set s. isspace c)"
proof
  assume "strip s = []"
  then have "dropWhile isspace (rev (dropWhile isspace s)) = []"
    by (simp add: strip_def)
  then have "\<forall>c \<in> set (dropWhile isspace s). isspace c"
    by (simp add: dropWhile_eq_Nil_conv)
  moreover have "\<forall>c \<in> set (takeWhile isspace s). isspace c"
    by (auto dest: set_takeWhileD)
  moreover have "set s = set (takeWhile isspace s) \<union> set (dropWhile isspace s)"
    by (metis set_append takeWhile_dropWhile_id)
  ultimately show "\<forall>c \<in> set s. isspace c" by auto
next
  assume "\<forall>c \<in> set s. isspace c"
  then have "dropWhile isspace s = []" by (simp only: dropWhile_eq_Nil_conv)
  then show "strip s = []"
    unfolding strip_def by (simp only: rev.simps dropWhile.simps)
qed

lemma sub_tags_from_no_lt: "CHR ''<'' \<notin> set s \<Longrightarrow> sub_tags_from 0 s = s"
  by (induction s) (auto simp: match_tag_def)

lemma isspace_not_lt: "isspace c \<Longrightarrow> c \<noteq> CHR ''<''"
  by (auto simp: isspace_def)

section \<open>Experience filter\<close>

text \<open>
  C2. A job whose combined title and description text contains one of the fixed
  exclusion markers is rejected by the experience filter, whatever else the text
  contains; in particular a fresh-graduate marker in the same text does not help.
\<close>

theorem experienceFilter_reject_absolute:
  "p \<in> set rejectPatterns \<Longrightarrow> contains p (combined j) \<Longrightarrow> \<not> experienceFilter j"
  unfolding experienceFilter_def any_in_iff by auto

theorem experienceFilter_reject_absolute_witness:
  "''senior'' \<in> set rejectPatterns \<and> contains ''senior'' (combined job_senior_fresh)
   \<and> ''fresh'' \<in> set freshPatterns \<and> contains ''fresh'' (combined job_senior_fresh)
   \<and> \<not> experienceFilter job_senior_fresh"
proof -
  have a: "''senior'' \<in> set rejectPatterns"
    by (simp add: rejectPatterns_def)
  have b: "contains ''senior'' (combined job_senior_fresh)"
    by (simp add: combined_def job_senior_fresh_def)
  have c: "''fresh'' \<in> set freshPatterns"
    by (simp add: freshPatterns_def)
  have d: "contains ''fresh'' (combined job_senior_fresh)"
    by (simp add: combined_def job_senior_fresh_def)
  from a b c d experienceFilter_reject_absolute[OF a b] show ?thesis by simp
qed

section \<open>Normalizer\<close>

lemma cleanHtml_blank: "strip s = [] \<Longrightarrow> cleanHtml (Some s) = []"
proof -
  assume b: "strip s = []"
  then have "CHR ''<'' \<notin> set s"
    using isspace_not_lt by (auto simp: strip_Nil_iff)
  then have "sub_tags s = s"
    by (simp add: sub_tags_def sub_tags_from_no_lt)
  with b show ?thesis by (simp add: cleanHtml_def)
qed

text \<open>
  C5, as the code has it. The normalizer returns no job exactly when the raw title or
  the raw company is absent or the empty string; the test is made before any tag is
  removed and before trimming. So every input whose trimmed title and company are
  non-empty gives a job, and a title or a company that is not empty and consists of
  blanks only is accepted and gives a job in which that field is empty.
\<close>

theorem normalizeJob_null_iff:
  "(normalizeJob t c l d a e = None \<longleftrightarrow> t = None \<or> t = Some [] \<or> c = None \<or> c = Some [])
   \<and> (\<forall>s s'. t = Some s \<and> c = Some s' \<and> strip s \<noteq> [] \<and> strip s' \<noteq> []
         \<longrightarrow> (\<exists>j. normalizeJob t c l d a e = Some j))
   \<and> (\<forall>s. t = Some s \<and> s \<noteq> [] \<and> strip s = [] \<and> \<not> falsy c
         \<longrightarrow> (\<exists>j. normalizeJob t c l d a e = Some j \<and> title j = []))
   \<and> (\<forall>s'. c = Some s' \<and> s' \<noteq> [] \<and> strip s' = [] \<and> \<not> falsy t
         \<longrightarrow> (\<exists>j. normalizeJob t c l d a e = Some j \<and> company j = []))"
proof -
  have 1: "normalizeJob t c l d a e = None \<longleftrightarrow> t = None \<or> t = Some [] \<or> c = None \<or> c = Some []"
    by (auto simp: normalizeJob_def Let_def falsy_def split: option.splits)
  have 2: "\<exists>j. normalizeJob t c l d a e = Some j"
    if "t = Some s" "c = Some s'" "strip s \<noteq> []" "strip s' \<noteq> []" for s s'
    using that by (auto simp: normalizeJob_def Let_def falsy_def strip_def)
  have 3: "\<exists>j. normalizeJob t c l d a e = Some j \<and> title j = []"
    if "t = Some s" "s \<noteq> []" "strip s = []" "\<not> falsy c" for s
    using that by (simp add: normalizeJob_def Let_def falsy_def cleanHtml_blank lower_def strip_def)
  have 4: "\<exists>j. normalizeJob t c l d a e = Some j \<and> company j = []"
    if "c = Some s'" "s' \<noteq> []" "strip s' = []" "\<not> falsy t" for s'
    using that by (simp add: normalizeJob_def Let_def falsy_def cleanHtml_blank strip_def)
  from 1 2 3 4 show ?thesis by blast
qed

theorem normalizeJob_null_iff_witness:
  "strip ''Junior Dev'' \<noteq> [] \<and> strip ''Acme'' \<noteq> []
   \<and> (\<exists>j. normalizeJob (Some ''Junior Dev'') (Some ''Acme'') None (Some ''first advert'')
             ''http://acme.example/a'' None = Some j)
   \<and> normalizeJob (Some []) (Some ''Acme'') None (Some ''first advert'')
        ''http://acme.example/a'' None = None
   \<and> ''   '' \<noteq> [] \<and> strip ''   '' = [] \<and> \<not> falsy (Some ''Acme'')
   \<and> (\<exists>j. normalizeJob (Some ''   '') (Some ''Acme'') None (Some ''first advert'')
             ''http://acme.example/a'' None = Some j \<and> title j = [])"
proof -
  have a: "strip ''Junior Dev'' \<noteq> []" and b: "strip ''Acme'' \<noteq> []"
    by (simp_all add: strip_def isspace_def)
  have c: "''   '' \<noteq> []" and d: "strip ''   '' = []" and e: "\<not> falsy (Some ''Acme'')"
    by (simp_all add: strip_def isspace_def falsy_def)
  from a b c d e
    normalizeJob_null_iff[of "Some ''Junior Dev''" "Some ''Acme''" None "Some ''first advert''"
      "''http://acme.example/a''" None]
    normalizeJob_null_iff[of "Some []" "Some ''Acme''" None "Some ''first advert''"
      "''http://acme.example/a''" None]
    normalizeJob_null_iff[of "Some ''   ''" "Some ''Acme''" None "Some ''first advert''"
      "''http://acme.example/a''" None]
  show ?thesis by blast
qed

text \<open>
  The claim C5 as it is written fails on a title of blanks only: its trimmed text is
  empty, and the normalizer still returns a job, with an empty title.
\<close>

theorem normalizeJob_blank_title_counterexample:
  "strip ''   '' = []
   \<and> normalizeJob (Some ''   '') (Some ''Acme'') None None ''http://acme.example/a'' None =
       Some \<lparr> title = [], company = ''Acme'', location = ''pakistan'', description = [],
              applyLink = ''http://acme.example/a'', email = None, job_id = ''acme-'' \<rparr>"
  by code_simp

text \<open>
  Beyond ASCII: the no-break space U+00A0 and the control U+0085 are trimmed, and the
  capital U+00C9 of the title is lower-cased to U+00E9, in the title and in the
  fingerprint.
\<close>

lemma normalizeJob_latin1:
  "normalizeJob (Some ([CHR 0xA0] @ ''CAF'' @ [CHR 0xC9] @ '' Dev'' @ [CHR 0x85]))
      (Some ([CHR 0xC9] @ ''cole'')) None None ''http://acme.example/a'' None =
     Some \<lparr> title = ''caf'' @ [CHR 0xE9] @ '' dev'', company = [CHR 0xC9] @ ''cole'',
            location = ''pakistan'', description = [],
            applyLink = ''http://acme.example/a'', email = None,
            job_id = [CHR 0xE9] @ ''cole-caf'' @ [CHR 0xE9] @ '' dev'' \<rparr>"
  by code_simp

text \<open>
  C6. The fingerprint of a normalized job is its lower-cased company cut to 30
  characters, a hyphen, and its lower-cased title cut to 40 characters. It is a
  function of the input, and two normalized postings that agree on these two prefixes
  have the same fingerprint, whatever their other fields are.
\<close>

theorem fingerprint_identity:
  assumes "normalizeJob t c l d a e = Some j"
  shows "job_id j = take 30 (lower (company j)) @ ''-'' @ take 40 (lower (title j))
    \<and> (\<forall>t' c' l' d' a' e' j'. normalizeJob t' c' l' d' a' e' = Some j'
          \<longrightarrow> take 30 (lower (company j')) = take 30 (lower (company j))
          \<longrightarrow> take 40 (lower (title j')) = take 40 (lower (title j))
          \<longrightarrow> job_id j' = job_id j)"
proof -
  have fp: "job_id x = take 30 (lower (company x)) @ ''-'' @ take 40 (lower (title x))"
    if "normalizeJob t c l d a e = Some x" for t c l d a e x
    using that by (auto simp: normalizeJob_def Let_def lower_idem split: if_splits)
  show ?thesis using assms fp by metis
qed

theorem fingerprint_identity_witness:
  "normalizeJob (Some ''Junior Dev'') (Some ''Acme'') None (Some ''first advert'')
       ''http://acme.example/a'' None = Some job_posting_a
   \<and> normalizeJob (Some ''  JUNIOR Dev '') (Some ''<b>ACME</b>'') (Some ''Lahore'') (Some ''second advert'')
       ''http://acme.example/b'' None = Some job_posting_b
   \<and> description job_posting_a \<noteq> description job_posting_b
   \<and> job_id job_posting_a = ''acme-junior dev''
   \<and> job_id job_posting_b = job_id job_posting_a"
proof -
  have a: "normalizeJob (Some ''Junior Dev'') (Some ''Acme'') None (Some ''first advert'')
       ''http://acme.example/a'' None = Some job_posting_a"
    by code_simp
  have b: "normalizeJob (Some ''  JUNIOR Dev '') (Some ''<b>ACME</b>'') (Some ''Lahore'') (Some ''second advert'')
       ''http://acme.example/b'' None = Some job_posting_b"
    by code_simp
  have c: "take 30 (lower (company job_posting_b)) = take 30 (lower (company job_posting_a))"
    by code_simp
  have d: "take 40 (lower (title job_posting_b)) = take 40 (lower (title job_posting_a))"
    by code_simp
  have e: "description job_posting_a \<noteq> description job_posting_b"
    by code_simp
  have f: "take 30 (lower (company job_posting_a)) @ ''-'' @ take 40 (lower (title job_posting_a))
           = ''acme-junior dev''"
    by code_simp
  from fingerprint_identity[OF a] b c d have "job_id job_posting_b = job_id job_posting_a"
    by blast
  moreover from fingerprint_identity[OF a] f have "job_id job_posting_a = ''acme-junior dev''"
    by simp
  ultimately show ?thesis using a b e by simp
qed







section \<open>History store\<close>

lemma length_filter_diff: "length xs - length (filter P xs) = length (filter (\<lambda>x. \<not> P x) xs)"
  using sum_length_filter_compl[of P xs] by simp

lemma cleanup_old_entries_result:
  assumes "cleanup_old_entries now wo w = (n, w')"
  shows "history w' = filter (\<lambda>(k, t). cutoff_timestamp now (retention_days w) < t) (history w)"
    and "retention_days w' = retention_days w"
    and "n = length (filter (\<lambda>(k, t). t \<le> cutoff_timestamp now (retention_days w)) (history w))"
    and "n = 0 \<Longrightarrow> w' = w"
proof -
  let ?c = "cutoff_timestamp now (retention_days w)"
  let ?h = "filter (\<lambda>(k, t). ?c < t) (history w)"
  show h: "history w' = ?h" and "retention_days w' = retention_days w"
    using assms by (auto simp: cleanup_old_entries_def Let_def save_history_def split: if_splits)
  have n: "n = length (history w) - length ?h"
    using assms by (auto simp: cleanup_old_entries_def Let_def)
  have "filter (\<lambda>x. \<not> (case x of (k, t) \<Rightarrow> ?c < t)) (history w)
          = filter (\<lambda>(k, t). t \<le> ?c) (history w)"
    by (rule filter_cong) auto
  then show "n = length (filter (\<lambda>(k, t). t \<le> ?c) (history w))"
    using length_filter_diff[of "history w" "\<lambda>(k, t). ?c < t"] n by simp
  show "w' = w" if "n = 0"
  proof -
    from that n length_filter_le[of "\<lambda>(k, t). ?c < t" "history w"]
    have "length ?h = length (history w)"
      by arith
    then have "?h = history w"
      by (metis length_filter_less filter_True less_irrefl_nat)
    with that assms show ?thesis
      by (auto simp: cleanup_old_entries_def Let_def)
  qed
qed

lemma cleanup_old_entries_two:
  assumes "cleanup_old_entries now wo w = (n, w')"
    and "cleanup_old_entries now2 wo2 w' = (n2, w'')"
  shows "set (history w') = {(k, t) \<in> set (history w). cutoff_timestamp now (retention_days w) < t}
     \<and> n = length (filter (\<lambda>(k, t). t \<le> cutoff_timestamp now (retention_days w)) (history w))
     \<and> (history w = [] \<longrightarrow> n = 0 \<and> w' = w)
     \<and> set (history w'') = {(k, t) \<in> set (history w'). cutoff_timestamp now2 (retention_days w) < t}
     \<and> n2 = length (filter (\<lambda>(k, t). t \<le> cutoff_timestamp now2 (retention_days w)) (history w'))
     \<and> (n2 = 0 \<longleftrightarrow> (\<forall>(k, t) \<in> set (history w'). cutoff_timestamp now2 (retention_days w) < t))
     \<and> (now2 \<le> now \<longrightarrow> n2 = 0 \<and> w'' = w')"
proof -
  let ?c = "cutoff_timestamp now (retention_days w)"
  let ?c2 = "cutoff_timestamp now2 (retention_days w)"
  note a = cleanup_old_entries_result[OF assms(1)]
  note b = cleanup_old_entries_result[OF assms(2), unfolded a(2)]
  have 1: "set (history w') = {(k, t) \<in> set (history w). ?c < t}"
    by (auto simp: a(1))
  have 3: "history w = [] \<longrightarrow> n = 0 \<and> w' = w"
    using a(3) a(4) by auto
  have 4: "set (history w'') = {(k, t) \<in> set (history w'). ?c2 < t}"
    by (auto simp: b(1))
  have 6: "n2 = 0 \<longleftrightarrow> (\<forall>(k, t) \<in> set (history w'). ?c2 < t)"
    unfolding b(3) by (auto simp: filter_empty_conv)
  have 7: "n2 = 0 \<and> w'' = w'" if "now2 \<le> now"
  proof -
    from that have "?c2 \<le> ?c" by (simp add: cutoff_timestamp_def)
    then have "\<forall>(k, t) \<in> set (history w'). ?c2 < t"
      unfolding 1 by auto
    with 6 have "n2 = 0" by simp
    with b(4) show ?thesis by simp
  qed
  from 1 a(3) 3 4 b(3) 6 7 show ?thesis by blast
qed

text \<open>
  C3, as the code has it. \<open>cleanup_old_entries\<close> raises \<open>OverflowError\<close> exactly when
  the cutoff \<open>now - retention_days\<close> is not a date. When it returns, it has kept exactly
  the entries whose timestamp is later than the cutoff and removed the others, those at
  the cutoff or before it; it returns the number of entries removed; on an empty store
  it changes nothing and returns 0. A second call reads the clock again: when it
  returns, it has removed exactly the remaining entries that are at or before its own
  cutoff, so it removes nothing exactly when every remaining entry is later than the new
  cutoff, and in particular when the clock has not advanced.
\<close>

theorem cleanup_old_entries_exact:
  "(cleanup_old_entries_checked now wo w = Inl OverflowError
      \<longleftrightarrow> \<not> in_datetime_range (cutoff_timestamp now (retention_days w)))
   \<and> (\<forall>n w'. cleanup_old_entries_checked now wo w = Inr (n, w') \<longrightarrow>
          set (history w') = {(k, t) \<in> set (history w). cutoff_timestamp now (retention_days w) < t}
        \<and> n = length (filter (\<lambda>(k, t). t \<le> cutoff_timestamp now (retention_days w)) (history w))
        \<and> (history w = [] \<longrightarrow> n = 0 \<and> w' = w)
        \<and> (\<forall>n2 w''. cleanup_old_entries_checked now2 wo2 w' = Inr (n2, w'') \<longrightarrow>
               set (history w'') =
                 {(k, t) \<in> set (history w'). cutoff_timestamp now2 (retention_days w) < t}
             \<and> n2 = length (filter (\<lambda>(k, t). t \<le> cutoff_timestamp now2 (retention_days w))
                              (history w'))
             \<and> (n2 = 0 \<longleftrightarrow>
                  (\<forall>(k, t) \<in> set (history w'). cutoff_timestamp now2 (retention_days w) < t))
             \<and> (now2 \<le> now \<longrightarrow> n2 = 0 \<and> w'' = w')))"
proof -
  have 1: "cleanup_old_entries_checked now wo w = Inl OverflowError
      \<longleftrightarrow> \<not> in_datetime_range (cutoff_timestamp now (retention_days w))"
    by (simp add: cleanup_old_entries_checked_def)
  have 2: "cleanup_old_entries now wo w = (n, w')"
    if "cleanup_old_entries_checked now wo w = Inr (n, w')" for now wo w n w'
    using that by (simp add: cleanup_old_entries_checked_def split: if_splits)
  have 3: "set (history w') = {(k, t) \<in> set (history w). cutoff_timestamp now (retention_days w) < t}
        \<and> n = length (filter (\<lambda>(k, t). t \<le> cutoff_timestamp now (retention_days w)) (history w))
        \<and> (history w = [] \<longrightarrow> n = 0 \<and> w' = w)"
    if "cleanup_old_entries_checked now wo w = Inr (n, w')" for n w'
    using cleanup_old_entries_result[OF 2[OF that]] by auto
  have 4: "set (history w'') =
                 {(k, t) \<in> set (history w'). cutoff_timestamp now2 (retention_days w) < t}
             \<and> n2 = length (filter (\<lambda>(k, t). t \<le> cutoff_timestamp now2 (retention_days w))
                              (history w'))
             \<and> (n2 = 0 \<longleftrightarrow>
                  (\<forall>(k, t) \<in> set (history w'). cutoff_timestamp now2 (retention_days w) < t))
             \<and> (now2 \<le> now \<longrightarrow> n2 = 0 \<and> w'' = w')"
    if "cleanup_old_entries_checked now wo w = Inr (n, w')"
      and "cleanup_old_entries_checked now2 wo2 w' = Inr (n2, w'')" for n w' n2 w''
    using cleanup_old_entries_two[OF 2[OF that(1)] 2[OF that(2)]] by blast
  show ?thesis
  proof (intro conjI allI impI)
    show "cleanup_old_entries_checked now wo w = Inl OverflowError
      \<longleftrightarrow> \<not> in_datetime_range (cutoff_timestamp now (retention_days w))"
      by (rule 1)
  qed (use 3 4 in blast)+
qed

theorem cleanup_old_entries_exact_witness:
  "cleanup_old_entries_checked 1700000000000000 Written world_two_entries = Inr (1, world_new_entry)
   \<and> cleanup_old_entries_checked 1700003600000000 (WriteFailed None) world_new_entry
        = Inr (0, world_new_entry)
   \<and> set (history world_new_entry) = {(''acme-new job'', 1699913600000000)}
   \<and> in_datetime_range (cutoff_timestamp 1700000000000000 (retention_days world_two_entries))"
proof -
  have r: "in_datetime_range (cutoff_timestamp 1700000000000000 (retention_days world_two_entries))"
    by (simp add: in_datetime_range_def datetime_min_def datetime_max_def cutoff_timestamp_def
        timedelta_days_def world_two_entries_def)
  have a: "cleanup_old_entries_checked 1700000000000000 Written world_two_entries
             = Inr (1, world_new_entry)"
    by (simp add: cleanup_old_entries_checked_def in_datetime_range_def datetime_min_def
        datetime_max_def cleanup_old_entries_def cutoff_timestamp_def timedelta_days_def Let_def
        save_history_def world_two_entries_def world_new_entry_def)
  have b: "cleanup_old_entries_checked 1700003600000000 (WriteFailed None) world_new_entry
             = Inr (0, world_new_entry)"
    by (simp add: cleanup_old_entries_checked_def in_datetime_range_def datetime_min_def
        datetime_max_def cleanup_old_entries_def cutoff_timestamp_def timedelta_days_def Let_def
        world_new_entry_def)
  have c: "{(k, t) \<in> set (history world_two_entries).
             cutoff_timestamp 1700000000000000 (retention_days world_two_entries) < t}
           = {(''acme-new job'', 1699913600000000)}"
    by (auto simp: world_two_entries_def cutoff_timestamp_def timedelta_days_def)
  from cleanup_old_entries_exact[of 1700000000000000 Written world_two_entries
      1700003600000000 "WriteFailed None"] a b
  have "set (history world_new_entry) =
          {(k, t) \<in> set (history world_two_entries).
             cutoff_timestamp 1700000000000000 (retention_days world_two_entries) < t}"
    by blast
  with a b c r show ?thesis by simp
qed

text \<open>
  The claim C3 as it is written fails in three places. At the boundary: an entry whose
  timestamp is the cutoff itself is not strictly older than the cutoff, and it is
  removed. At the second call: an entry one microsecond newer than the cutoff stays at
  the first call and is removed by a call one microsecond later. And on an empty store
  with a retention of 739000 days the call raises instead of returning 0.
\<close>

theorem cleanup_old_entries_boundary_counterexample:
  "(''acme-week old job'', 1699395200000000) \<in> set (history world_boundary_entry)
   \<and> \<not> (1699395200000000 < cutoff_timestamp 1700000000000000 (retention_days world_boundary_entry))
   \<and> cleanup_old_entries_checked 1700000000000000 Written world_boundary_entry =
        Inr (1, \<lparr> history = [], retention_days = 7, disk = Some [], trace = [SaveHistory []] \<rparr>)
   \<and> cleanup_old_entries_checked 1700000000000000 Written world_just_inside
        = Inr (0, world_just_inside)
   \<and> cleanup_old_entries_checked 1700000000000001 Written world_just_inside =
        Inr (1, \<lparr> history = [], retention_days = 7, disk = Some [], trace = [SaveHistory []] \<rparr>)
   \<and> history world_long_retention = []
   \<and> cleanup_old_entries_checked 1700000000000000 Written world_long_retention = Inl OverflowError"
  by (simp add: cleanup_old_entries_checked_def in_datetime_range_def datetime_min_def
      datetime_max_def cleanup_old_entries_def cutoff_timestamp_def timedelta_days_def Let_def
      save_history_def world_boundary_entry_def world_just_inside_def world_long_retention_def)

section \<open>Scorer\<close>

lemma synonym_credit_eq:
  "synonym_credit tbl s jobText =
     (if (\<exists>(key, syns) \<in> set tbl. (contains key s \<or> contains s key) \<and> any_in syns jobText)
      then 0.8 else 0)"
  by (induction tbl s jobText rule: synonym_credit.induct) auto

lemma count_matches_sum:
  "count_matches jobText skills m = m + sum_list (map (skill_credit jobText) skills)"
  by (induction skills arbitrary: m) (auto simp: Let_def skill_credit_def synonym_credit_eq)

lemma skill_credit_range: "skill_credit jobText s \<in> {0, 0.8, 1}"
  by (simp add: skill_credit_def)

lemma sum_credit_bounds:
  "0 \<le> sum_list (map (skill_credit jobText) skills)
   \<and> sum_list (map (skill_credit jobText) skills) \<le> real (length skills)"
proof (induction skills)
  case Nil
  then show ?case by simp
next
  case (Cons s skills)
  have "0 \<le> skill_credit jobText s" "skill_credit jobText s \<le> 1"
    by (simp_all add: skill_credit_def)
  with Cons show ?case by simp
qed

lemma computeKeywordScore_eq:
  "computeKeywordScore j skills =
     (if skills = [] then 0
      else sum_list (map (skill_credit (lower (title j @ '' '' @ description j))) skills)
             / real (length skills))"
  by (simp add: computeKeywordScore_def Let_def count_matches_sum)

lemma computeKeywordScore_bounds:
  "0 \<le> computeKeywordScore j skills" "computeKeywordScore j skills \<le> 1"
  using sum_credit_bounds[of "lower (title j @ '' '' @ description j)" skills]
  by (simp_all add: computeKeywordScore_eq divide_le_eq)

text \<open>
  C9. The keyword-overlap score lies between 0 and 1. Each skill token has one credit,
  which is 1, 0.8 or 0 as the specification describes; the score is the sum of the
  credits divided by the number of skill tokens, and it is 0 for a profile without
  skills.
\<close>

theorem computeKeywordScore_unit_interval:
  "0 \<le> computeKeywordScore j skills \<and> computeKeywordScore j skills \<le> 1
   \<and> computeKeywordScore j [] = 0
   \<and> (skills \<noteq> [] \<longrightarrow>
        computeKeywordScore j skills =
          sum_list (map (skill_credit (lower (title j @ '' '' @ description j))) skills)
            / real (length skills))
   \<and> (\<forall>s \<in> set skills. skill_credit (lower (title j @ '' '' @ description j)) s \<in> {0, 0.8, 1})"
  using computeKeywordScore_bounds[of j skills] skill_credit_range
  by (simp add: computeKeywordScore_eq)

theorem computeKeywordScore_unit_interval_witness:
  "[''python'', ''mongodb'', ''kotlin''] \<noteq> []
   \<and> skill_credit (lower (title job_python_nosql @ '' '' @ description job_python_nosql)) ''python'' = 1
   \<and> skill_credit (lower (title job_python_nosql @ '' '' @ description job_python_nosql)) ''mongodb'' = 0.8
   \<and> skill_credit (lower (title job_python_nosql @ '' '' @ description job_python_nosql)) ''kotlin'' = 0
   \<and> computeKeywordScore job_python_nosql [''python'', ''mongodb'', ''kotlin''] = 0.6
   \<and> computeKeywordScore job_python_nosql [''python'', ''mongodb'', ''kotlin''] \<le> 1"
proof -
  define jobText where "jobText = lower (title job_python_nosql @ '' '' @ description job_python_nosql)"
  have t: "jobText = ''junior python developer services on nosql stores''"
    by (simp add: jobText_def job_python_nosql_def lower_def lower_char_def)
  have a: "skill_credit jobText ''python'' = 1"
    unfolding t by (simp add: skill_credit_def lower_def lower_char_def)
  have b: "skill_credit jobText ''mongodb'' = 0.8"
    unfolding t by (simp add: skill_credit_def lower_def lower_char_def synonyms_def any_in_def)
  have c: "skill_credit jobText ''kotlin'' = 0"
    unfolding t by (simp add: skill_credit_def lower_def lower_char_def synonyms_def any_in_def)
  have ne: "[''python'', ''mongodb'', ''kotlin''] \<noteq> []"
    by simp
  from computeKeywordScore_unit_interval[of job_python_nosql "[''python'', ''mongodb'', ''kotlin'']",
      folded jobText_def] ne
  have eq: "computeKeywordScore job_python_nosql [''python'', ''mongodb'', ''kotlin'']
              = sum_list (map (skill_credit jobText) [''python'', ''mongodb'', ''kotlin''])
                  / real (length [''python'', ''mongodb'', ''kotlin''])"
    and le: "computeKeywordScore job_python_nosql [''python'', ''mongodb'', ''kotlin''] \<le> 1"
    by blast+
  have "computeKeywordScore job_python_nosql [''python'', ''mongodb'', ''kotlin''] = 0.6"
    unfolding eq by (simp add: a b c)
  with a b c le ne show ?thesis
    unfolding jobText_def by blast
qed

lemma freshGradBoost_cases: "freshGradBoost j = 0 \<or> freshGradBoost j = 0.15"
  by (simp add: freshGradBoost_def)

lemma roleBoost_cases:
  "roleBoost j = 0 \<or> roleBoost j = 0.05 \<or> roleBoost j = 0.10 \<or> roleBoost j = 0.20"
  by (simp add: roleBoost_def Let_def)

lemma boosts_nonneg: "0 \<le> freshGradBoost j" "0 \<le> roleBoost j"
  using freshGradBoost_cases[of j] roleBoost_cases[of j] by auto




text \<open>
  The exponent brackets its argument, and \<open>round_double\<close> is at most half a unit in the
  last place away from its argument.
\<close>

lemma float_exponent_bounds:
  assumes "0 < a"
  shows "pow2 (float_exponent a) \<le> a \<and> a < pow2 (float_exponent a + 1)"
proof (cases "1 \<le> a")
  case True
  let ?m = "\<lfloor>a\<rfloor>"
  have m: "0 < ?m" using True by simp
  let ?k = "bitlen ?m"
  from bitlen_bounds[OF m] have lo: "2 ^ nat (?k - 1) \<le> ?m" and hi: "?m < 2 ^ nat ?k"
    by simp_all
  have k: "1 \<le> ?k" using m by (simp add: bitlen_alt_def)
  have e: "float_exponent a = ?k - 1" using True by (simp add: float_exponent_def)
  from lo have "real_of_int (2 ^ nat (?k - 1)) \<le> a"
    by (simp only: le_floor_iff)
  then have 1: "pow2 (?k - 1) \<le> a"
    using k by (simp add: pow2_def)
  from hi have "a < real_of_int (2 ^ nat ?k)"
    by (simp only: floor_less_iff)
  then have 2: "a < pow2 ?k"
    using k by (simp add: pow2_def)
  from 1 2 show ?thesis by (simp add: e)
next
  case False
  with assms have a: "0 < a" "a < 1" by simp_all
  let ?y = "1 / a"
  have y: "1 < ?y" using a by simp
  let ?M = "\<lceil>?y\<rceil> - 1"
  have "1 < \<lceil>?y\<rceil>" using y by (simp only: less_ceiling_iff of_int_1)
  then have M: "0 < ?M" by simp
  let ?k = "bitlen ?M"
  from bitlen_bounds[OF M] have lo: "2 ^ nat (?k - 1) \<le> ?M" and hi: "?M < 2 ^ nat ?k"
    by simp_all
  have k: "1 \<le> ?k" using M by (simp add: bitlen_alt_def)
  have e: "float_exponent a = - ?k" using False by (simp add: float_exponent_def)
  from hi have "\<lceil>?y\<rceil> \<le> 2 ^ nat ?k" by simp
  then have "?y \<le> real_of_int (2 ^ nat ?k)"
    by (simp only: ceiling_le_iff)
  then have "1 \<le> a * 2 ^ nat ?k"
    using a by (simp add: divide_le_eq mult.commute)
  then have 1: "pow2 (- ?k) \<le> a"
    using k by (simp add: pow2_def divide_le_eq)
  from lo have "2 ^ nat (?k - 1) < \<lceil>?y\<rceil>" by simp
  then have "real_of_int (2 ^ nat (?k - 1)) < ?y"
    by (simp only: less_ceiling_iff)
  then have lt: "a * 2 ^ nat (?k - 1) < 1"
    using a by (simp add: less_divide_eq mult.commute)
  have 2: "a < pow2 (- ?k + 1)"
  proof (cases "?k = 1")
    case True
    then show ?thesis using a by (simp add: pow2_def)
  next
    case False
    with k have "- ?k + 1 < 0" by simp
    moreover have "nat (- (- ?k + 1)) = nat (?k - 1)" by simp
    ultimately show ?thesis
      using lt by (simp add: pow2_def less_divide_eq)
  qed
  from 1 2 show ?thesis by (simp add: e)
qed


lemma pow2_pos: "0 < pow2 e"
  by (simp add: pow2_def)

lemma round_half_even_nearest: "\<bar>real_of_int (round_half_even q) - q\<bar> \<le> 1 / 2"
proof -
  have "real_of_int \<lfloor>q\<rfloor> \<le> q" "q < real_of_int \<lfloor>q\<rfloor> + 1"
    by linarith+
  then show ?thesis
    by (auto simp: round_half_even_def Let_def)
qed

lemma round_double_nearest:
  "\<bar>round_double x - x\<bar> \<le> pow2 (max (float_exponent \<bar>x\<bar>) (- 1022) - 52) / 2"
proof -
  let ?u = "pow2 (max (float_exponent \<bar>x\<bar>) (- 1022) - 52)"
  let ?n = "round_half_even (\<bar>x\<bar> / ?u)"
  have u: "0 < ?u" by (rule pow2_pos)
  have "\<bar>(real_of_int ?n - \<bar>x\<bar> / ?u) * ?u\<bar> = \<bar>real_of_int ?n - \<bar>x\<bar> / ?u\<bar> * ?u"
    using u by (simp add: abs_mult)
  also have "\<dots> \<le> 1 / 2 * ?u"
    using round_half_even_nearest[of "\<bar>x\<bar> / ?u"] u by (intro mult_right_mono) simp_all
  finally have "\<bar>(real_of_int ?n - \<bar>x\<bar> / ?u) * ?u\<bar> \<le> ?u / 2"
    by simp
  moreover have "(real_of_int ?n - \<bar>x\<bar> / ?u) * ?u = real_of_int ?n * ?u - \<bar>x\<bar>"
    using u by (simp add: left_diff_distrib)
  ultimately have b: "\<bar>real_of_int ?n * ?u - \<bar>x\<bar>\<bar> \<le> ?u / 2"
    by simp
  consider "x = 0" | "0 < x" | "x < 0" by linarith
  then show ?thesis
  proof cases
    case 1
    then show ?thesis using u by (simp add: round_double_def)
  next
    case 2
    then have "round_double x = real_of_int ?n * ?u"
      by (simp add: round_double_def Let_def)
    with b 2 show ?thesis by simp
  next
    case 3
    define A where "A = real_of_int ?n * ?u"
    from 3 have "round_double x = - A"
      by (simp add: round_double_def Let_def A_def)
    moreover from 3 have "\<bar>x\<bar> = - x" by simp
    ultimately have "round_double x - x = - (A - \<bar>x\<bar>)" by simp
    then have "\<bar>round_double x - x\<bar> = \<bar>A - \<bar>x\<bar>\<bar>"
      by (simp only: abs_minus_cancel)
    with b show ?thesis by (simp only: A_def)
  qed
qed


lemma count_matches_fl_exact: "count_matches_fl (\<lambda>x. x) jobText skills m = count_matches jobText skills m"
  by (induction skills arbitrary: m) (simp_all add: Let_def)

lemma scoreJobHybrid_fl_exact: "scoreJobHybrid_fl (\<lambda>x. x) c skills j = scoreJobHybrid c skills j"
  by (simp add: scoreJobHybrid_fl_def scoreJobHybrid_def computeKeywordScore_fl_def
      computeKeywordScore_def count_matches_fl_exact Let_def)

lemma round_half_even_nonneg: "0 \<le> q \<Longrightarrow> 0 \<le> round_half_even q"
  by (auto simp: round_half_even_def Let_def)

lemma round_double_nonneg: "0 \<le> x \<Longrightarrow> 0 \<le> round_double x"
proof (cases "x = 0")
  case True
  then show ?thesis by (simp add: round_double_def)
next
  case False
  assume "0 \<le> x"
  with False have x: "0 < x" by simp
  let ?u = "pow2 (max (float_exponent \<bar>x\<bar>) (- 1022) - 52)"
  have "0 \<le> \<bar>x\<bar> / ?u" using pow2_pos[of "max (float_exponent \<bar>x\<bar>) (- 1022) - 52"] by simp
  then have "0 \<le> round_half_even (\<bar>x\<bar> / ?u)" by (rule round_half_even_nonneg)
  then have "0 \<le> of_int (round_half_even (\<bar>x\<bar> / ?u)) * ?u"
    using pow2_pos[of "max (float_exponent \<bar>x\<bar>) (- 1022) - 52"] by simp
  then show ?thesis using x by (simp add: round_double_def Let_def)
qed

lemma count_matches_fl_nonneg:
  "0 \<le> m \<Longrightarrow> 0 \<le> count_matches_fl round_double jobText skills m"
proof (induction skills arbitrary: m)
  case Nil
  then show ?case by simp
next
  case (Cons s skills)
  have a: "0 \<le> round_double (m + 1)"
    using Cons.prems by (intro round_double_nonneg) simp
  have "0 \<le> synonym_credit synonyms (lower s) jobText"
    by (simp add: synonym_credit_eq)
  then have "0 \<le> round_double (synonym_credit synonyms (lower s) jobText)"
    by (rule round_double_nonneg)
  then have b: "0 \<le> round_double (m + round_double (synonym_credit synonyms (lower s) jobText))"
    using Cons.prems by (intro round_double_nonneg) simp
  show ?case
    using Cons.IH[OF a] Cons.IH[OF b] Cons.IH[OF Cons.prems] by (simp add: Let_def)
qed

lemma computeKeywordScore_double_nonneg: "0 \<le> computeKeywordScore_double j skills"
  using count_matches_fl_nonneg[of 0 "lower (title j @ '' '' @ description j)" skills]
  by (simp add: computeKeywordScore_double_def computeKeywordScore_fl_def Let_def round_double_nonneg)

text \<open>
  C4, as the code has it. With the cosine clamped at 0 and the keyword-overlap score,
  the final score is the integer part (the value is cut, not rounded) of the double
  that the code computes for
  \<open>(semantic * 0.70 + keyword * 0.30 + freshGradBoost + roleBoost) * 100\<close>,
  every operation rounded to double precision in the order written, limited to 100.
\<close>

theorem scoreJobHybrid_double_formula:
  "scoreJobHybrid_double c skills j =
     min 100 \<lfloor>round_double
                 (round_double
                    (round_double
                       (round_double
                          (round_double (max 0 c * round_double 0.70)
                           + round_double (computeKeywordScore_double j skills * round_double 0.30))
                        + round_double (freshGradBoost j))
                     + round_double (roleBoost j))
                  * 100)\<rfloor>"
proof -
  have "0 \<le> round_double
                 (round_double
                    (round_double
                       (round_double
                          (round_double (max 0 c * round_double 0.70)
                           + round_double (computeKeywordScore_double j skills * round_double 0.30))
                        + round_double (freshGradBoost j))
                     + round_double (roleBoost j))
                  * 100)"
    using boosts_nonneg[of j] computeKeywordScore_double_nonneg[of j skills]
    by (intro round_double_nonneg mult_nonneg_nonneg add_nonneg_nonneg) simp_all
  then show ?thesis
    by (simp add: scoreJobHybrid_double_def scoreJobHybrid_fl_def computeKeywordScore_double_def
        Let_def py_int_def)
qed


text \<open>
  With no cosine, both skills matched and both boosts, the double computed for
  \<open>0.3 + 0.15 + 0.2\<close> is just below 0.65, and the score is 64; with the double
  nearest to 0.1 as cosine and nothing else, the double computed for \<open>0.1 * 0.70\<close> is
  just below 0.07, and the score is 6.
\<close>

theorem scoreJobHybrid_double_formula_witness:
  "scoreJobHybrid_double 0 [''python'', ''react''] job_entry_python = 64
   \<and> scoreJobHybrid_double (round_double 0.1) [] job_clerk = 6"
proof -
  have d70: "round_double (0.70) = 3152519739159347 / 4503599627370496"
    unfolding round_double_def Let_def float_exponent_def
    by (simp add: compute_bitlen; simp add: pow2_def round_half_even_def Let_def)
  have d30: "round_double (0.30) = 5404319552844595 / 18014398509481984"
    unfolding round_double_def Let_def float_exponent_def
    by (simp add: compute_bitlen; simp add: pow2_def round_half_even_def Let_def)
  have d15: "round_double (0.15) = 5404319552844595 / 36028797018963968"
    unfolding round_double_def Let_def float_exponent_def
    by (simp add: compute_bitlen; simp add: pow2_def round_half_even_def Let_def)
  have d20: "round_double (0.20) = 3602879701896397 / 18014398509481984"
    unfolding round_double_def Let_def float_exponent_def
    by (simp add: compute_bitlen; simp add: pow2_def round_half_even_def Let_def)
  have r1: "round_double (1) = 1"
    unfolding round_double_def Let_def float_exponent_def
    by (simp add: compute_bitlen; simp add: pow2_def round_half_even_def Let_def)
  have r2: "round_double (2) = 2"
    unfolding round_double_def Let_def float_exponent_def
    by (simp add: compute_bitlen; simp add: pow2_def round_half_even_def Let_def)
  have p1: "round_double (0 * (3152519739159347 / 4503599627370496)) = 0"
    unfolding round_double_def Let_def float_exponent_def
    by (simp add: compute_bitlen; simp add: pow2_def round_half_even_def Let_def)
  have p2: "round_double (1 * (5404319552844595 / 18014398509481984)) = 5404319552844595 / 18014398509481984"
    unfolding round_double_def Let_def float_exponent_def
    by (simp add: compute_bitlen; simp add: pow2_def round_half_even_def Let_def)
  have s0: "round_double (0 + 5404319552844595 / 18014398509481984) = 5404319552844595 / 18014398509481984"
    unfolding round_double_def Let_def float_exponent_def
    by (simp add: compute_bitlen; simp add: pow2_def round_half_even_def Let_def)
  have s1: "round_double (5404319552844595 / 18014398509481984 + 5404319552844595 / 36028797018963968) = 2026619832316723 / 4503599627370496"
    unfolding round_double_def Let_def float_exponent_def
    by (simp add: compute_bitlen; simp add: pow2_def round_half_even_def Let_def)
  have s2: "round_double (2026619832316723 / 4503599627370496 + 3602879701896397 / 18014398509481984) = 1463669878895411 / 2251799813685248"
    unfolding round_double_def Let_def float_exponent_def
    by (simp add: compute_bitlen; simp add: pow2_def round_half_even_def Let_def)
  have v: "round_double (1463669878895411 / 2251799813685248 * 100) = 4573968371548159 / 70368744177664"
    unfolding round_double_def Let_def float_exponent_def
    by (simp add: compute_bitlen; simp add: pow2_def round_half_even_def Let_def)
  have k: "computeKeywordScore_double job_entry_python [''python'', ''react''] = 1"
    by (simp add: computeKeywordScore_double_def computeKeywordScore_fl_def job_entry_python_def
        lower_def lower_char_def Let_def r1 r2)
  have f: "freshGradBoost job_entry_python = 0.15"
    by (simp add: freshGradBoost_def job_entry_python_def freshKeywords_def lower_def lower_char_def)
  have r: "roleBoost job_entry_python = 0.20"
    by (simp add: roleBoost_def job_entry_python_def highPriorityRoles_def any_in_def lower_def
        lower_char_def)
  have m: "max 0 (0::real) = 0"
    by simp
  have "scoreJobHybrid_double 0 [''python'', ''react''] job_entry_python
          = min 100 \<lfloor>4573968371548159 / 70368744177664 :: real\<rfloor>"
    unfolding scoreJobHybrid_double_formula[of 0 "[''python'', ''react'']" job_entry_python]
    by (simp only: d70 d30 k f r d15 d20 m p1 p2 s0 s1 s2 v)
  then have first: "scoreJobHybrid_double 0 [''python'', ''react''] job_entry_python = 64"
    by simp
  have z: "round_double (0) = 0"
    unfolding round_double_def Let_def float_exponent_def
    by (simp add: compute_bitlen; simp add: pow2_def round_half_even_def Let_def)
  have p0: "round_double (0 * (5404319552844595 / 18014398509481984)) = 0"
    unfolding round_double_def Let_def float_exponent_def
    by (simp add: compute_bitlen; simp add: pow2_def round_half_even_def Let_def)
  have c10: "round_double (0.1) = 3602879701896397 / 36028797018963968"
    unfolding round_double_def Let_def float_exponent_def
    by (simp add: compute_bitlen; simp add: pow2_def round_half_even_def Let_def)
  have q1: "round_double (3602879701896397 / 36028797018963968 * (3152519739159347 / 4503599627370496)) = 5044031582654955 / 72057594037927936"
    unfolding round_double_def Let_def float_exponent_def
    by (simp add: compute_bitlen; simp add: pow2_def round_half_even_def Let_def)
  have q0: "round_double (5044031582654955 / 72057594037927936 + 0) = 5044031582654955 / 72057594037927936"
    unfolding round_double_def Let_def float_exponent_def
    by (simp add: compute_bitlen; simp add: pow2_def round_half_even_def Let_def)
  have qv: "round_double (5044031582654955 / 72057594037927936 * 100) = 7881299347898367 / 1125899906842624"
    unfolding round_double_def Let_def float_exponent_def
    by (simp add: compute_bitlen; simp add: pow2_def round_half_even_def Let_def)
  have k': "computeKeywordScore_double job_clerk [] = 0"
    by (simp add: computeKeywordScore_double_def computeKeywordScore_fl_def)
  have f': "freshGradBoost job_clerk = 0"
    by (simp add: freshGradBoost_def job_clerk_def freshKeywords_def lower_def lower_char_def)
  have r': "roleBoost job_clerk = 0"
    by (simp add: roleBoost_def job_clerk_def highPriorityRoles_def mediumPriorityRoles_def
        lowPriorityRoles_def any_in_def lower_def lower_char_def)
  have m': "max 0 (3602879701896397 / 36028797018963968 :: real)
              = 3602879701896397 / 36028797018963968"
    by simp
  have "scoreJobHybrid_double (round_double 0.1) [] job_clerk
          = min 100 \<lfloor>7881299347898367 / 1125899906842624 :: real\<rfloor>"
    unfolding scoreJobHybrid_double_formula[of "round_double 0.1" "[]" job_clerk]
    by (simp only: d70 d30 c10 k' f' r' z m' p0 q1 q0 qv)
  then have "scoreJobHybrid_double (round_double 0.1) [] job_clerk = 6"
    by simp
  with first show ?thesis by simp
qed

text \<open>
  The claim C4 as it is written fails where the fractional part is a half or more: for
  the double nearest to 0.51 as cosine, no skills and no boost the value is 35.7, the
  code returns 35 and rounding gives 36.
\<close>

theorem scoreJobHybrid_round_counterexample:
  "scoreJobHybrid_double (round_double 0.51) [] job_clerk = 35
   \<and> min 100 (round ((0.70 * max 0 (round_double 0.51) + 0.30 * computeKeywordScore_double job_clerk []
                        + freshGradBoost job_clerk + roleBoost job_clerk) * 100)) = 36"
proof -
  have d70: "round_double (0.70) = 3152519739159347 / 4503599627370496"
    unfolding round_double_def Let_def float_exponent_def
    by (simp add: compute_bitlen; simp add: pow2_def round_half_even_def Let_def)
  have d30: "round_double (0.30) = 5404319552844595 / 18014398509481984"
    unfolding round_double_def Let_def float_exponent_def
    by (simp add: compute_bitlen; simp add: pow2_def round_half_even_def Let_def)
  have c51: "round_double (0.51) = 2296835809958953 / 4503599627370496"
    unfolding round_double_def Let_def float_exponent_def
    by (simp add: compute_bitlen; simp add: pow2_def round_half_even_def Let_def)
  have z: "round_double (0) = 0"
    unfolding round_double_def Let_def float_exponent_def
    by (simp add: compute_bitlen; simp add: pow2_def round_half_even_def Let_def)
  have p1: "round_double (2296835809958953 / 4503599627370496 * (3152519739159347 / 4503599627370496)) = 1607785066971267 / 4503599627370496"
    unfolding round_double_def Let_def float_exponent_def
    by (simp add: compute_bitlen; simp add: pow2_def round_half_even_def Let_def)
  have p2: "round_double (0 * (5404319552844595 / 18014398509481984)) = 0"
    unfolding round_double_def Let_def float_exponent_def
    by (simp add: compute_bitlen; simp add: pow2_def round_half_even_def Let_def)
  have s0: "round_double (1607785066971267 / 4503599627370496 + 0) = 1607785066971267 / 4503599627370496"
    unfolding round_double_def Let_def float_exponent_def
    by (simp add: compute_bitlen; simp add: pow2_def round_half_even_def Let_def)
  have v: "round_double (1607785066971267 / 4503599627370496 * 100) = 5024328334285209 / 140737488355328"
    unfolding round_double_def Let_def float_exponent_def
    by (simp add: compute_bitlen; simp add: pow2_def round_half_even_def Let_def)
  have k: "computeKeywordScore_double job_clerk [] = 0"
    by (simp add: computeKeywordScore_double_def computeKeywordScore_fl_def)
  have f: "freshGradBoost job_clerk = 0"
    by (simp add: freshGradBoost_def job_clerk_def freshKeywords_def lower_def lower_char_def)
  have r: "roleBoost job_clerk = 0"
    by (simp add: roleBoost_def job_clerk_def highPriorityRoles_def mediumPriorityRoles_def
        lowPriorityRoles_def any_in_def lower_def lower_char_def)
  have m: "max 0 (2296835809958953 / 4503599627370496 :: real) = 2296835809958953 / 4503599627370496"
    by simp
  have "scoreJobHybrid_double (round_double 0.51) [] job_clerk
          = min 100 \<lfloor>5024328334285209 / 140737488355328 :: real\<rfloor>"
    unfolding scoreJobHybrid_double_def scoreJobHybrid_fl_def Let_def py_int_def
      computeKeywordScore_double_def[symmetric]
    by (simp only: d70 d30 c51 k f r z m p1 p2 s0 v) simp
  moreover have "min 100 (round ((0.70 * max 0 (round_double 0.51)
        + 0.30 * computeKeywordScore_double job_clerk []
        + freshGradBoost job_clerk + roleBoost job_clerk) * 100)) = 36"
  proof -
    have c: "round_double (51 / 100) = 2296835809958953 / 4503599627370496"
      using c51 by simp
    show ?thesis
      by (simp add: c k f r round_def)
  qed
  ultimately show ?thesis by simp
qed




section \<open>Dispatch and orchestrator\<close>

lemma map_fst_dict_set:
  "map fst (dict_set k v h) = (if k \<in> fst ` set h then map fst h else map fst h @ [k])"
  by (induction h) force+

lemma keys_dict_set: "fst ` set (dict_set k v h) = insert k (fst ` set h)"
proof -
  have "set (map fst (dict_set k v h)) = insert k (set (map fst h))"
    unfolding map_fst_dict_set by auto
  then show ?thesis by simp
qed


lemma save_history_simps:
  "history (save_history wo w) = history w"
  "retention_days (save_history wo w) = retention_days w"
  "trace (save_history wo w) = trace w @ [SaveHistory (history w)]"
  "disk (save_history Written w) = Some (history w)"
  by (simp_all add: save_history_def)

lemma mark_as_sent_simps:
  "history (mark_as_sent now wo k w) = dict_set k now (history w)"
  "retention_days (mark_as_sent now wo k w) = retention_days w"
  "trace (mark_as_sent now wo k w) = trace w @ [SaveHistory (dict_set k now (history w))]"
  "disk (mark_as_sent now Written k w) = Some (dict_set k now (history w))"
  by (simp_all add: mark_as_sent_def save_history_def)

lemma is_sent_mark: "is_sent (mark_as_sent now wo k w) k' \<longleftrightarrow> k' = k \<or> is_sent w k'"
  by (auto simp: is_sent_def mark_as_sent_simps keys_dict_set)

lemma is_sent_trace_update [simp]: "is_sent (w\<lparr>trace := tr\<rparr>) k = is_sent w k"
  by (simp add: is_sent_def)

text \<open>
  C10. On a job that has not been sent, \<open>sendToDiscord\<close> first records the fingerprint
  in the store with the current time and writes the store, and only then posts to the
  webhook; this is so whether the post succeeds or raises, so the fingerprint is in the
  store afterwards and a later dispatch of the job does nothing. On a job that has been
  sent, the store and the trace of effects are unchanged.
\<close>

theorem sendToDiscord_records_first:
  "(\<not> is_sent w (job_id j) \<longrightarrow>
      is_sent (sendToDiscord now wo post_ok j score w) (job_id j)
    \<and> history (sendToDiscord now wo post_ok j score w) = dict_set (job_id j) now (history w)
    \<and> trace (sendToDiscord now wo post_ok j score w) =
        trace w @ [SaveHistory (dict_set (job_id j) now (history w)),
                   HttpPost \<lparr> embed_job = j, embed_score = score,
                              embed_desc = embed_description j, embed_color = embed_colour score \<rparr>]
          @ (if post_ok then [Sleep 1] else [])
    \<and> (wo = Written \<longrightarrow>
         disk (sendToDiscord now wo post_ok j score w) = Some (dict_set (job_id j) now (history w)))
    \<and> sendToDiscord now' wo' post_ok' j score' (sendToDiscord now wo post_ok j score w)
        = sendToDiscord now wo post_ok j score w)
   \<and> (is_sent w (job_id j) \<longrightarrow> sendToDiscord now wo post_ok j score w = w)"
proof -
  have sent: "sendToDiscord now wo post_ok j score w = w" if "is_sent w (job_id j)"
    using that by (simp add: sendToDiscord_def)
  have new: "is_sent (sendToDiscord now wo post_ok j score w) (job_id j)"
    by (simp add: sendToDiscord_def Let_def is_sent_mark)
  have again: "sendToDiscord now' wo' post_ok' j score' (sendToDiscord now wo post_ok j score w)
        = sendToDiscord now wo post_ok j score w"
    using new by (simp add: sendToDiscord_def[of now' wo' post_ok'])
  have h: "history (sendToDiscord now wo post_ok j score w) = dict_set (job_id j) now (history w)"
    if "\<not> is_sent w (job_id j)"
    using that by (simp add: sendToDiscord_def Let_def mark_as_sent_simps)
  have tr: "trace (sendToDiscord now wo post_ok j score w) =
        trace w @ [SaveHistory (dict_set (job_id j) now (history w)),
                   HttpPost \<lparr> embed_job = j, embed_score = score,
                              embed_desc = embed_description j, embed_color = embed_colour score \<rparr>]
          @ (if post_ok then [Sleep 1] else [])"
    if "\<not> is_sent w (job_id j)"
    using that by (simp add: sendToDiscord_def Let_def mark_as_sent_simps)
  have d: "disk (sendToDiscord now wo post_ok j score w) = Some (dict_set (job_id j) now (history w))"
    if "\<not> is_sent w (job_id j)" "wo = Written"
    using that by (simp add: sendToDiscord_def Let_def mark_as_sent_simps)
  from sent new again h tr d show ?thesis by blast
qed

theorem sendToDiscord_records_first_witness:
  "\<not> is_sent world_new_entry (job_id job_junior_web)
   \<and> is_sent (sendToDiscord 1700000000000000 Written False job_junior_web 35 world_new_entry)
        (job_id job_junior_web)
   \<and> disk (sendToDiscord 1700000000000000 Written False job_junior_web 35 world_new_entry) =
        Some [(''acme-new job'', 1699913600000000), (''acme-junior web developer'', 1700000000000000)]
   \<and> is_sent world_sent_web (job_id job_junior_web)
   \<and> sendToDiscord 1700000000000000 Written True job_junior_web 35 world_sent_web = world_sent_web"
proof -
  have a: "\<not> is_sent world_new_entry (job_id job_junior_web)"
    by (simp add: is_sent_def world_new_entry_def job_junior_web_def)
  have b: "is_sent world_sent_web (job_id job_junior_web)"
    by (simp add: is_sent_def job_junior_web_def world_sent_web_def)
  have c: "dict_set (job_id job_junior_web) 1700000000000000 (history world_new_entry) =
        [(''acme-new job'', 1699913600000000), (''acme-junior web developer'', 1700000000000000)]"
    by (simp add: world_new_entry_def job_junior_web_def)
  from sendToDiscord_records_first[of world_new_entry job_junior_web 1700000000000000 Written False 35]
    sendToDiscord_records_first[of world_sent_web job_junior_web 1700000000000000 Written True 35]
    a b c
  show ?thesis by simp
qed















end
